theory Spec2Isabelle
  imports Main "HOL-Library.Word" "HOL-Library.Sublist"
begin

unbundle bit_operations_syntax

section \<open>form2json: the Caddy handler that rewrites form posts as JSON\<close>

text \<open>
  A shallow embedding of \<^verbatim>\<open>handler.go\<close>. Go strings are byte sequences and are
  modelled as \<^typ>\<open>string\<close> (a list of 8-bit characters); file contents are lists of
  bytes. \<^verbatim>\<open>int64\<close> values are only compared, stored and converted from a
  non-negative \<^verbatim>\<open>int\<close> in this program (no arithmetic is done on them), so they
  are modelled as \<^typ>\<open>int\<close>.
\<close>

subsection \<open>Data\<close>

type_synonym int64 = int
type_synonym byte = "8 word"

text \<open>Error values. The handler only passes them on, so the ones raised by the operating
  system and the decoders are opaque messages.\<close>

datatype err =
    ErrNotMultipart
  | ErrMissingBoundary
  | OtherError string

text \<open>\<^verbatim>\<open>caddyhttp.HandlerError\<close>, as built by \<^verbatim>\<open>caddyhttp.Error(status, err)\<close>:
  the status code and the cause (the random ID and the stack trace are left out).\<close>

record HandlerError =
  StatusCode :: int
  Err :: err

definition Error :: "int \<Rightarrow> err \<Rightarrow> HandlerError" where
  "Error statusCode e = \<lparr>StatusCode = statusCode, Err = e\<rparr>"

definition StatusBadRequest :: int where
  "StatusBadRequest = 400"

definition StatusInternalServerError :: int where
  "StatusInternalServerError = 500"

definition MethodPost :: string where
  "MethodPost = ''POST''"

text \<open>\<^verbatim>\<open>type Handler struct { MemoryLimit int64 }\<close>\<close>

record Handler =
  MemoryLimit :: int64

text \<open>\<^verbatim>\<open>type part struct\<close>, every field a string tagged \<^verbatim>\<open>omitempty\<close>.\<close>

record part =
  Name :: string
  Type :: string
  Value :: string
  ContentType :: string
  FileName :: string

text \<open>The zero value \<^verbatim>\<open>part{}\<close>.\<close>

definition part_zero :: part where
  "part_zero = \<lparr>Name = [], Type = [], Value = [], ContentType = [], FileName = []\<rparr>"

text \<open>\<^verbatim>\<open>http.Header\<close> and \<^verbatim>\<open>textproto.MIMEHeader\<close> are
  \<^verbatim>\<open>map[string][]string\<close>. \<^verbatim>\<open>Get\<close> returns the first value stored under
  the key, or the empty string; \<^verbatim>\<open>Set\<close> replaces the values of the key by one
  value. Both canonicalise the key first; the three keys the handler uses
  (\<^verbatim>\<open>Content-Type\<close>, \<^verbatim>\<open>Content-Type-Class\<close>, \<^verbatim>\<open>Content-Length\<close>) are
  already in canonical form.\<close>

type_synonym header = "string \<rightharpoonup> string list"

definition Header_Get :: "header \<Rightarrow> string \<Rightarrow> string" where
  "Header_Get hdr key = (case hdr key of None \<Rightarrow> [] | Some [] \<Rightarrow> [] | Some (v # _) \<Rightarrow> v)"

definition Header_Set :: "header \<Rightarrow> string \<Rightarrow> string \<Rightarrow> header" where
  "Header_Set hdr key v = hdr(key \<mapsto> [v])"

text \<open>An uploaded file. \<^verbatim>\<open>file.Open()\<close> either fails or gives a stream; reading
  the stream to its end yields \<open>data\<close> and then either the end of the file
  (\<open>fail = None\<close>) or a read error.\<close>

datatype OpenedFile = OpenedFile (data: "byte list") (fail: "err option")

record FileHeader =
  Filename :: string
  MIMEHeader :: header
  Open :: "err + OpenedFile"

text \<open>\<^verbatim>\<open>multipart.Form\<close>: two Go maps from a field name to its values and to its
  files. A Go map holds a key once and \<^verbatim>\<open>range\<close> visits its entries in an order
  the runtime chooses; each map is modelled by the list of its entries in the order
  \<^verbatim>\<open>range\<close> visits them in the run at hand, so that a statement about all lists is
  a statement about all visiting orders.\<close>

record Form =
  FormValue :: "(string \<times> string list) list"
  FormFile :: "(string \<times> FileHeader list) list"

text \<open>The part of \<^verbatim>\<open>http.Request\<close> the handler reads or writes. \<open>Body\<close> is the
  byte sequence the body stream yields. The handler closes the old body after parsing
  and replaces it; closing has no effect on what the next handler receives and is not
  modelled.\<close>

record Request =
  Method :: string
  Header :: header
  Body :: string
  ContentLength :: int64
  MultipartForm :: "Form option"

text \<open>What the handler consumes from the Go standard library and the operating
  system. The handler's own code does not decide these, so they are parameters:
  \<^item> \<open>ParseForm\<close>: the error of \<^verbatim>\<open>r.ParseForm()\<close> (URL query and urlencoded body);
  \<^item> \<open>mediaParams\<close>: the parameters \<^verbatim>\<open>mime.ParseMediaType\<close> reads from a
    \<^verbatim>\<open>Content-Type\<close> value, \<open>None\<close> when it reports an error;
  \<^item> \<open>ReadForm\<close>: \<^verbatim>\<open>multipart.Reader.ReadForm\<close> on a boundary, a body and the
    memory limit;
  \<^item> \<open>RemoveAll\<close>: \<^verbatim>\<open>r.MultipartForm.RemoveAll()\<close>, the removal of the parser's
    temporary files;
  \<^item> \<open>json_string\<close>: the string encoder of \<^verbatim>\<open>encoding/json\<close> (quotes and
    escapes).\<close>

record stdlib =
  ParseForm :: "Request \<Rightarrow> err option"
  mediaParams :: "string \<Rightarrow> (string \<rightharpoonup> string) option"
  ReadForm :: "string \<Rightarrow> string \<Rightarrow> int64 \<Rightarrow> err + Form"
  RemoveAll :: "Form \<Rightarrow> err option"
  json_string :: "string \<Rightarrow> string"

subsection \<open>Provision\<close>

definition defaultMemLimit :: int64 where
  "defaultMemLimit = 1024 * 1024 * 2"

text \<open>\<^verbatim>\<open>func (h Handler) Provision(_ caddy.Context) error\<close> has a value receiver:
  its body runs on a copy \<open>h\<close> of the handler it is called on. \<open>Provision_body\<close>
  gives that local copy when the body returns, together with the returned error.\<close>

definition Provision_body :: "Handler \<Rightarrow> Handler \<times> err option" where
  "Provision_body h =
     (let h = (if MemoryLimit h \<le> 0 then h\<lparr>MemoryLimit := defaultMemLimit\<rparr> else h)
      in (h, None))"

text \<open>A call \<^verbatim>\<open>h.Provision(ctx)\<close>: the caller's handler after the call and the
  returned error. The copy made for the receiver is dropped when the call returns.\<close>

definition Provision :: "Handler \<Rightarrow> Handler \<times> err option" where
  "Provision h = (h, snd (Provision_body h))"

subsection \<open>Base64\<close>

text \<open>\<^verbatim>\<open>base64.StdEncoding\<close>: the alphabet of RFC 4648 with \<^verbatim>\<open>=\<close> padding and
  no line breaks.\<close>

definition encodeStd :: string where
  "encodeStd = ''ABCDEFGHIJKLMNOPQRSTUVWXYZabcdefghijklmnopqrstuvwxyz0123456789+/''"

definition padChar :: char where
  "padChar = CHR ''=''"

text \<open>\<^verbatim>\<open>enc.encode[val>>s&0x3F]\<close> on a \<^verbatim>\<open>uint\<close>.\<close>

definition sextet :: "64 word \<Rightarrow> nat \<Rightarrow> char" where
  "sextet val s = encodeStd ! unat (drop_bit s val AND 0x3F)"

text \<open>\<^verbatim>\<open>Encoding.Encode\<close>: three bytes become four characters; a last block of one
  or two bytes is padded. The streaming encoder of \<^verbatim>\<open>base64.NewEncoder\<close> writes the
  full blocks as they arrive and the padded block at \<^verbatim>\<open>Close\<close>.\<close>

fun Encode :: "byte list \<Rightarrow> string" where
  "Encode (b0 # b1 # b2 # src) =
     (let val = push_bit 16 (ucast b0) OR push_bit 8 (ucast b1) OR ucast b2
      in sextet val 18 # sextet val 12 # sextet val 6 # sextet val 0 # Encode src)"
| "Encode [b0, b1] =
     (let val = push_bit 16 (ucast b0) OR push_bit 8 (ucast b1)
      in [sextet val 18, sextet val 12, sextet val 6, padChar])"
| "Encode [b0] =
     (let val = push_bit 16 (ucast b0)
      in [sextet val 18, sextet val 12, padChar, padChar])"
| "Encode [] = []"

text \<open>\<^verbatim>\<open>io.Copy(b64enc, f)\<close>: what has reached the buffer when the copy returns, and
  the error of the copy. The encoder keeps an incomplete block back until
  \<^verbatim>\<open>Close\<close>, so only the full blocks of the data read so far are in the buffer.\<close>

definition io_Copy :: "OpenedFile \<Rightarrow> string \<times> err option" where
  "io_Copy f = (Encode (take (3 * (length (data f) div 3)) (data f)), fail f)"

text \<open>\<^verbatim>\<open>b64enc.Close()\<close>: the buffer after the held-back block is flushed.\<close>

definition b64enc_Close :: "OpenedFile \<Rightarrow> string \<Rightarrow> string" where
  "b64enc_Close f buf = buf @ Encode (drop (3 * (length (data f) div 3)) (data f))"

subsection \<open>encodeFileIntoMemory\<close>

definition encodeFileIntoMemory :: "string \<Rightarrow> FileHeader \<Rightarrow> part \<times> err option" where
  "encodeFileIntoMemory name file =
     (case Open file of
        Inl e \<Rightarrow> (part_zero, Some e)
      | Inr f \<Rightarrow>
          (case io_Copy f of
             (buf, Some e) \<Rightarrow> (part_zero, Some e)
           | (buf, None) \<Rightarrow>
               (\<lparr>Name = name,
                 Type = ''file/base64'',
                 Value = b64enc_Close f buf,
                 ContentType = Header_Get (MIMEHeader file) ''Content-Type'',
                 FileName = Filename file\<rparr>, None)))"

subsection \<open>The form parser of net/http\<close>

text \<open>\<^verbatim>\<open>r.ParseMultipartForm\<close> is a function of Go's \<^verbatim>\<open>net/http\<close>, not of
  this repository; the handler's outcome depends on its control flow, which is modelled
  after the library:
  \<^item> it calls \<^verbatim>\<open>r.ParseForm()\<close> (the request arrives with \<^verbatim>\<open>r.Form\<close> unset)
    and keeps the error for the end;
  \<^item> it returns nil at once when \<^verbatim>\<open>r.MultipartForm\<close> is already set;
  \<^item> it calls \<^verbatim>\<open>r.multipartReader\<close> and returns its error;
  \<^item> it calls \<^verbatim>\<open>ReadForm(maxMemory)\<close> on the reader and returns its error;
  \<^item> it stores the form in \<^verbatim>\<open>r.MultipartForm\<close> and returns the error kept from
    \<^verbatim>\<open>ParseForm\<close>.

  \<^verbatim>\<open>multipartReader\<close> reads the \<^verbatim>\<open>Content-Type\<close> header and returns
  \<^verbatim>\<open>ErrNotMultipart\<close> when the header is empty, when \<^verbatim>\<open>mime.ParseMediaType\<close>
  fails or when the media type is not \<^verbatim>\<open>multipart/form-data\<close>, and
  \<^verbatim>\<open>ErrMissingBoundary\<close> when the parameters hold no \<^verbatim>\<open>boundary\<close>.
  \<^verbatim>\<open>ParseMediaType\<close> takes as media type the text before the first semicolon, in
  lower case and with the surrounding white space removed. \<open>ToLower\<close> folds the ASCII
  letters only; the library also folds letters outside ASCII, which are never white space
  before or after folding, so for a header value that begins with one of the two prefixes
  of the handler's gate the model's media type is \<^verbatim>\<open>multipart/form-data\<close> exactly
  when the library's is. A server request always has a body, so the library's check for
  a nil body is left out.\<close>

definition ToLower :: "string \<Rightarrow> string" where
  "ToLower s =
     map (\<lambda>c. let n = (of_char c :: nat) in if 65 \<le> n \<and> n \<le> 90 then char_of (n + 32) else c) s"

definition isSpace :: "char \<Rightarrow> bool" where
  "isSpace c = (c \<in> {CHR '' '', CHR 0x09, CHR 0x0A, CHR 0x0B, CHR 0x0C, CHR 0x0D})"

text \<open>\<^verbatim>\<open>strings.TrimSpace\<close> removes Unicode white space from both ends: the six
  ASCII characters of \<open>isSpace\<close> and the runes U+0085, U+00A0, U+1680, U+2000 to
  U+200A, U+2028, U+2029, U+202F, U+205F and U+3000, here in their UTF-8 encodings.
  \<open>space_width ws s\<close> is the number of bytes of the white-space rune at the head of
  \<open>s\<close> (0 when there is none), \<open>trim\<close> removes such runes while there are any, and
  the right end is trimmed on the reversed string with the reversed encodings.\<close>

definition unicode_spaces :: "string list" where
  "unicode_spaces =
     [[CHR 0xC2, CHR 0x85], [CHR 0xC2, CHR 0xA0], [CHR 0xE1, CHR 0x9A, CHR 0x80],
      [CHR 0xE2, CHR 0x80, CHR 0x80], [CHR 0xE2, CHR 0x80, CHR 0x81],
      [CHR 0xE2, CHR 0x80, CHR 0x82], [CHR 0xE2, CHR 0x80, CHR 0x83],
      [CHR 0xE2, CHR 0x80, CHR 0x84], [CHR 0xE2, CHR 0x80, CHR 0x85],
      [CHR 0xE2, CHR 0x80, CHR 0x86], [CHR 0xE2, CHR 0x80, CHR 0x87],
      [CHR 0xE2, CHR 0x80, CHR 0x88], [CHR 0xE2, CHR 0x80, CHR 0x89],
      [CHR 0xE2, CHR 0x80, CHR 0x8A], [CHR 0xE2, CHR 0x80, CHR 0xA8],
      [CHR 0xE2, CHR 0x80, CHR 0xA9], [CHR 0xE2, CHR 0x80, CHR 0xAF],
      [CHR 0xE2, CHR 0x81, CHR 0x9F], [CHR 0xE3, CHR 0x80, CHR 0x80]]"

definition space_width :: "string list \<Rightarrow> string \<Rightarrow> nat" where
  "space_width ws s =
     (case s of
        [] \<Rightarrow> 0
      | c # cs \<Rightarrow>
          if isSpace c then 1
          else (case find (\<lambda>w. prefix w s) ws of None \<Rightarrow> 0 | Some w \<Rightarrow> length w))"

function trim :: "string list \<Rightarrow> string \<Rightarrow> string" where
  "trim ws s = (if space_width ws s = 0 then s else trim ws (drop (space_width ws s) s))"
  by pat_completeness auto
termination
proof (relation "measure (\<lambda>(ws, s). length s)")
  show "wf (measure (\<lambda>(ws, s). length s))" by simp
next
  fix ws :: "string list" and s :: string
  assume "space_width ws s \<noteq> 0"
  then have "s \<noteq> []" "0 < space_width ws s"
    by (auto simp add: space_width_def)
  then show "((ws, drop (space_width ws s) s), (ws, s)) \<in> measure (\<lambda>(ws, s). length s)"
    by simp
qed

declare trim.simps [simp del]

definition TrimSpace :: "string \<Rightarrow> string" where
  "TrimSpace s = rev (trim (map rev unicode_spaces) (rev (trim unicode_spaces s)))"

definition mediatype :: "string \<Rightarrow> string" where
  "mediatype v = TrimSpace (ToLower (takeWhile (\<lambda>c. c \<noteq> CHR '';'') v))"

definition multipartReader :: "stdlib \<Rightarrow> Request \<Rightarrow> err + string" where
  "multipartReader lib r =
     (let v = Header_Get (Header r) ''Content-Type'' in
      if v = [] then Inl ErrNotMultipart
      else case mediaParams lib v of
             None \<Rightarrow> Inl ErrNotMultipart
           | Some params \<Rightarrow>
               if mediatype v \<noteq> ''multipart/form-data'' then Inl ErrNotMultipart
               else (case params ''boundary'' of
                       None \<Rightarrow> Inl ErrMissingBoundary
                     | Some boundary \<Rightarrow> Inr boundary))"

definition ParseMultipartForm :: "stdlib \<Rightarrow> Request \<Rightarrow> int64 \<Rightarrow> err + Form" where
  "ParseMultipartForm lib r maxMemory =
     (let parseFormErr = ParseForm lib r in
      case MultipartForm r of
        Some f \<Rightarrow> Inr f
      | None \<Rightarrow>
          (case multipartReader lib r of
             Inl e \<Rightarrow> Inl e
           | Inr boundary \<Rightarrow>
               (case ReadForm lib boundary (Body r) maxMemory of
                  Inl e \<Rightarrow> Inl e
                | Inr f \<Rightarrow> (case parseFormErr of Some e \<Rightarrow> Inl e | None \<Rightarrow> Inr f))))"

subsection \<open>Assembling the parts\<close>

text \<open>The two nested loops of \<^verbatim>\<open>ServeHTTP\<close>. \<open>converted\<close> is the slice the
  loops append to.\<close>

fun append_values :: "string \<Rightarrow> string list \<Rightarrow> part list \<Rightarrow> part list" where
  "append_values name [] converted = converted"
| "append_values name (v # values) converted =
     append_values name values
       (converted @ [\<lparr>Name = name, Type = ''field/text'', Value = v,
                      ContentType = [], FileName = []\<rparr>])"

fun range_Value :: "(string \<times> string list) list \<Rightarrow> part list \<Rightarrow> part list" where
  "range_Value [] converted = converted"
| "range_Value ((name, values) # rest) converted =
     range_Value rest (append_values name values converted)"

fun append_files :: "string \<Rightarrow> FileHeader list \<Rightarrow> part list \<Rightarrow> err + part list" where
  "append_files name [] converted = Inr converted"
| "append_files name (file # files) converted =
     (case encodeFileIntoMemory name file of
        (p, Some e) \<Rightarrow> Inl e
      | (p, None) \<Rightarrow> append_files name files (converted @ [p]))"

fun range_File :: "(string \<times> FileHeader list) list \<Rightarrow> part list \<Rightarrow> err + part list" where
  "range_File [] converted = Inr converted"
| "range_File ((name, files) # rest) converted =
     (case append_files name files converted of
        Inl e \<Rightarrow> Inl e
      | Inr converted' \<Rightarrow> range_File rest converted')"

subsection \<open>JSON\<close>

text \<open>\<^verbatim>\<open>json.NewEncoder(buf).Encode(converted)\<close>. A field tagged \<^verbatim>\<open>omitempty\<close>
  is left out when it is the empty string; the members keep the order of the struct's
  fields.\<close>

definition omitempty :: "string \<Rightarrow> string \<Rightarrow> (string \<times> string) list" where
  "omitempty key v = (if v = [] then [] else [(key, v)])"

definition part_members :: "part \<Rightarrow> (string \<times> string) list" where
  "part_members p =
     omitempty ''name'' (Name p) @ omitempty ''type'' (Type p) @ omitempty ''value'' (Value p) @
     omitempty ''content_type'' (ContentType p) @ omitempty ''file_name'' (FileName p)"

text \<open>The JSON documents the encoder can write for a \<^verbatim>\<open>[]part\<close>: \<^verbatim>\<open>null\<close>
  for a nil slice, an array of objects otherwise. \<^verbatim>\<open>var converted []part\<close> starts
  as the nil slice and only \<^verbatim>\<open>append\<close> changes it, so the slice is nil exactly
  when no part was appended.\<close>

datatype json = JNull | JArray "(string \<times> string) list list"

definition Marshal :: "part list \<Rightarrow> json" where
  "Marshal converted = (if converted = [] then JNull else JArray (map part_members converted))"

fun join :: "string list \<Rightarrow> string \<Rightarrow> string" where
  "join [] sep = []"
| "join [x] sep = x"
| "join (x # y # ys) sep = x @ sep @ join (y # ys) sep"

definition json_member :: "(string \<Rightarrow> string) \<Rightarrow> string \<times> string \<Rightarrow> string" where
  "json_member q m = [CHR 0x22] @ fst m @ [CHR 0x22] @ '':'' @ q (snd m)"

definition json_object :: "(string \<Rightarrow> string) \<Rightarrow> (string \<times> string) list \<Rightarrow> string" where
  "json_object q ms = ''{'' @ join (map (json_member q) ms) '','' @ ''}''"

fun json_bytes :: "(string \<Rightarrow> string) \<Rightarrow> json \<Rightarrow> string" where
  "json_bytes q JNull = ''null''"
| "json_bytes q (JArray objs) = ''['' @ join (map (json_object q) objs) '','' @ '']''"

text \<open>\<^verbatim>\<open>Encode\<close> ends the document with a newline. Encoding strings into a
  \<^verbatim>\<open>bytes.Buffer\<close> cannot fail, so the error is always nil.\<close>

definition json_Encode :: "stdlib \<Rightarrow> part list \<Rightarrow> string \<times> err option" where
  "json_Encode lib converted = (json_bytes (json_string lib) (Marshal converted) @ [CHR 0x0A], None)"

subsection \<open>strconv.Itoa\<close>

definition decimal :: string where
  "decimal = ''0123456789''"

fun uitoa :: "nat \<Rightarrow> string" where
  "uitoa n = (if n < 10 then [decimal ! n] else uitoa (n div 10) @ [decimal ! (n mod 10)])"

definition Itoa :: "int \<Rightarrow> string" where
  "Itoa i = (if i < 0 then CHR ''-'' # uitoa (nat (- i)) else uitoa (nat i))"

subsection \<open>ServeHTTP\<close>

text \<open>The handler ends either in \<^verbatim>\<open>return next.ServeHTTP(w, r)\<close>, handing the
  request \<open>r\<close> as it then is to the next handler, or in
  \<^verbatim>\<open>return caddyhttp.Error(status, err)\<close>, without calling the next handler.\<close>

datatype result = Next Request | Abort HandlerError

definition ServeHTTP :: "stdlib \<Rightarrow> Handler \<Rightarrow> Request \<Rightarrow> result" where
  "ServeHTTP lib h r =
     (if Method r \<noteq> MethodPost then Next r
      else
        let ct = Header_Get (Header r) ''Content-Type'' in
        if \<not> prefix ''application/x-www-form-urlencoded'' ct \<and>
           \<not> prefix ''multipart/form-data'' ct
        then Next r
        else
          (case ParseMultipartForm lib r (MemoryLimit h) of
             Inl e \<Rightarrow> Abort (Error StatusBadRequest e)
           | Inr form \<Rightarrow>
               (case range_File (FormFile form) (range_Value (FormValue form) []) of
                  Inl e \<Rightarrow> Abort (Error StatusInternalServerError e)
                | Inr converted \<Rightarrow>
                    (case RemoveAll lib form of
                       Some e \<Rightarrow> Abort (Error StatusInternalServerError e)
                     | None \<Rightarrow>
                         (case json_Encode lib converted of
                            (buf, Some e) \<Rightarrow> Abort (Error StatusInternalServerError e)
                          | (buf, None) \<Rightarrow>
                              Next (r\<lparr>MultipartForm := Some form,
                                      Body := buf,
                                      Header :=
                                        Header_Set
                                          (Header_Set
                                             (Header_Set (Header r)
                                                ''Content-Type'' ''application/json'')
                                             ''Content-Type-Class'' ''caddy_post_json_v1'')
                                          ''Content-Length'' (Itoa (int (length buf))),
                                      ContentLength := int (length buf)\<rparr>))))))"

subsection \<open>Notions used to state the properties\<close>

text \<open>The gate of \<^verbatim>\<open>ServeHTTP\<close>: the requests that pass both guards.\<close>

definition eligible :: "Request \<Rightarrow> bool" where
  "eligible r \<longleftrightarrow>
     Method r = MethodPost \<and>
     (prefix ''application/x-www-form-urlencoded'' (Header_Get (Header r) ''Content-Type'') \<or>
      prefix ''multipart/form-data'' (Header_Get (Header r) ''Content-Type''))"

text \<open>The entries of a Go map of lists, one pair per list element, in visiting order;
  the submitted (name, value) pairs and the (name, file) pairs of a form.\<close>

fun pairs :: "('a \<times> 'b list) list \<Rightarrow> ('a \<times> 'b) list" where
  "pairs [] = []"
| "pairs ((name, xs) # rest) = map (Pair name) xs @ pairs rest"

definition field_values :: "Form \<Rightarrow> (string \<times> string) list" where
  "field_values form = pairs (FormValue form)"

definition uploads :: "Form \<Rightarrow> (string \<times> FileHeader) list" where
  "uploads form = pairs (FormFile form)"

definition text_part :: "string \<times> string \<Rightarrow> part" where
  "text_part nv = \<lparr>Name = fst nv, Type = ''field/text'', Value = snd nv,
                    ContentType = [], FileName = []\<rparr>"

definition file_part :: "string \<times> FileHeader \<Rightarrow> part" where
  "file_part nf = fst (encodeFileIntoMemory (fst nf) (snd nf))"

definition encode_fails :: "string \<times> FileHeader \<Rightarrow> bool" where
  "encode_fails nf = (snd (encodeFileIntoMemory (fst nf) (snd nf)) \<noteq> None)"

text \<open>A byte that is neither ASCII white space nor part of any of the encodings
  \<open>ws\<close>: trimming stops at it.\<close>

definition solid :: "string list \<Rightarrow> char \<Rightarrow> bool" where
  "solid ws x \<longleftrightarrow> \<not> isSpace x \<and> list_all (\<lambda>w. x \<notin> set w) ws"

text \<open>What goes wrong with an uploaded file, read off the file alone: the error of
  opening it, or else the error that breaks off its read; and the first such error among
  the uploads in the order the handler visits them.\<close>

definition upload_error :: "FileHeader \<Rightarrow> err option" where
  "upload_error fh = (case Open fh of Inl e \<Rightarrow> Some e | Inr f \<Rightarrow> fail f)"

fun first_error :: "(string \<times> FileHeader) list \<Rightarrow> err option" where
  "first_error [] = None"
| "first_error ((name, fh) # rest) =
     (case upload_error fh of Some e \<Rightarrow> Some e | None \<Rightarrow> first_error rest)"

text \<open>A reference decoder for base64 after RFC 4648, written independently of the
  encoder: four characters give three bytes, and a final group may end in one or two
  padding characters.\<close>

fun index_of :: "char \<Rightarrow> string \<Rightarrow> nat option" where
  "index_of c [] = None"
| "index_of c (x # xs) = (if c = x then Some 0 else map_option Suc (index_of c xs))"





text \<open>A reference reader of decimal numerals, to state what a \<^verbatim>\<open>Content-Length\<close>
  value says.\<close>

fun parse_digits :: "string \<Rightarrow> nat \<Rightarrow> nat option" where
  "parse_digits [] acc = Some acc"
| "parse_digits (c # cs) acc =
     (case index_of c decimal of
        None \<Rightarrow> None
      | Some d \<Rightarrow> parse_digits cs (10 * acc + d))"

definition Atoi :: "string \<Rightarrow> nat option" where
  "Atoi s = (if s = [] then None else parse_digits s 0)"

subsection \<open>Example requests\<close>

text \<open>A library instance for the examples. It answers as Go does on the inputs the
  examples use: the media parameters of the two \<^verbatim>\<open>Content-Type\<close> values, the forms
  the multipart reader finds in the two bodies, and JSON strings of plain ASCII letters,
  digits and punctuation, which need no escape.\<close>

definition crlf :: string where
  "crlf = [CHR 0x0D, CHR 0x0A]"

definition dquote :: string where
  "dquote = [CHR 0x22]"

definition js :: "string \<Rightarrow> string" where
  "js s = dquote @ s @ dquote"

definition avatar_png :: FileHeader where
  "avatar_png =
     \<lparr>Filename = ''avatar.png'',
      MIMEHeader =
        [''Content-Disposition'' \<mapsto>
           [''form-data; name='' @ dquote @ ''avatar'' @ dquote @ ''; filename='' @ dquote @
            ''avatar.png'' @ dquote],
         ''Content-Type'' \<mapsto> [''image/png'']],
      Open = Inr (OpenedFile [0x50, 0x4E, 0x47, 0x44, 0x41, 0x54, 0x41] None)\<rparr>"

definition alice_form :: Form where
  "alice_form =
     \<lparr>FormValue = [(''name'', [''Alice'']), (''a'', [''1'', ''2''])],
      FormFile = [(''avatar'', [avatar_png])]\<rparr>"

definition alice_body :: string where
  "alice_body =
     ''--b'' @ crlf @
     ''Content-Disposition: form-data; name='' @ dquote @ ''name'' @ dquote @ crlf @ crlf @
     ''Alice'' @ crlf @
     ''--b'' @ crlf @
     ''Content-Disposition: form-data; name='' @ dquote @ ''a'' @ dquote @ crlf @ crlf @
     ''1'' @ crlf @
     ''--b'' @ crlf @
     ''Content-Disposition: form-data; name='' @ dquote @ ''a'' @ dquote @ crlf @ crlf @
     ''2'' @ crlf @
     ''--b'' @ crlf @
     ''Content-Disposition: form-data; name='' @ dquote @ ''avatar'' @ dquote @
       ''; filename='' @ dquote @ ''avatar.png'' @ dquote @ crlf @
     ''Content-Type: image/png'' @ crlf @ crlf @
     ''PNGDATA'' @ crlf @
     ''--b--'' @ crlf"

definition empty_body :: string where
  "empty_body = ''--b--'' @ crlf"

definition example_lib :: stdlib where
  "example_lib =
     \<lparr>ParseForm = (\<lambda>r. None),
      mediaParams =
        (\<lambda>v. if v = ''multipart/form-data; boundary=b'' then Some [''boundary'' \<mapsto> ''b'']
             else Some Map.empty),
      ReadForm =
        (\<lambda>boundary body maxMemory.
           if boundary = ''b'' \<and> body = alice_body then Inr alice_form
           else if boundary = ''b'' \<and> body = empty_body
           then Inr \<lparr>FormValue = [], FormFile = []\<rparr>
           else Inl (OtherError ''multipart: NextPart: EOF'')),
      RemoveAll = (\<lambda>form. None),
      json_string = js\<rparr>"

definition post :: "string \<Rightarrow> string \<Rightarrow> Request" where
  "post ct body =
     \<lparr>Method = ''POST'',
      Header = [''Content-Type'' \<mapsto> [ct]],
      Body = body,
      ContentLength = int (length body),
      MultipartForm = None\<rparr>"

text \<open>The scenario of the specification: the field \<^verbatim>\<open>name=Alice\<close>, the twice
  submitted field \<^verbatim>\<open>a\<close> and the file \<^verbatim>\<open>avatar.png\<close>.\<close>

definition alice_request :: Request where
  "alice_request = post ''multipart/form-data; boundary=b'' alice_body"

text \<open>A multipart form with no part at all: the body is the closing delimiter.\<close>

definition empty_request :: Request where
  "empty_request = post ''multipart/form-data; boundary=b'' empty_body"

text \<open>The urlencoded scenario of the specification.\<close>

definition urlencoded_request :: Request where
  "urlencoded_request = post ''application/x-www-form-urlencoded'' ''a=1&a=2''"


text \<open>A request that is not a form post.\<close>

definition json_request :: Request where
  "json_request = post ''application/json'' ''{}''"

text \<open>An upload the parser spilled to a temporary file that can no longer be opened,
  and one whose read breaks off after five bytes.\<close>

definition lost_upload :: FileHeader where
  "lost_upload = avatar_png\<lparr>Open := Inl (OtherError ''open multipart-1: no such file'')\<rparr>"

definition torn_upload :: FileHeader where
  "torn_upload =
     avatar_png\<lparr>Open := Inr (OpenedFile [0x50, 0x4E, 0x47, 0x44, 0x41]
                              (Some (OtherError ''read multipart-1: input/output error'')))\<rparr>"

text \<open>The body the handler is expected to write for \<open>alice_request\<close> when the
  runtime visits \<^verbatim>\<open>name\<close> before \<^verbatim>\<open>a\<close>.\<close>

definition alice_json :: string where
  "alice_json =
     ''[{'' @ js ''name'' @ '':'' @ js ''name'' @ '','' @ js ''type'' @ '':'' @ js ''field/text'' @ '','' @
            js ''value'' @ '':'' @ js ''Alice'' @
     ''},{'' @ js ''name'' @ '':'' @ js ''a'' @ '','' @ js ''type'' @ '':'' @ js ''field/text'' @ '','' @
            js ''value'' @ '':'' @ js ''1'' @
     ''},{'' @ js ''name'' @ '':'' @ js ''a'' @ '','' @ js ''type'' @ '':'' @ js ''field/text'' @ '','' @
            js ''value'' @ '':'' @ js ''2'' @
     ''},{'' @ js ''name'' @ '':'' @ js ''avatar'' @ '','' @ js ''type'' @ '':'' @ js ''file/base64'' @ '','' @
            js ''value'' @ '':'' @ js ''UE5HREFUQQ=='' @ '','' @
            js ''content_type'' @ '':'' @ js ''image/png'' @ '','' @
            js ''file_name'' @ '':'' @ js ''avatar.png'' @
     ''}]'' @ [CHR 0x0A]"

definition alice_converted :: Request where
  "alice_converted =
     \<lparr>Method = ''POST'',
      Header =
        [''Content-Type'' \<mapsto> [''application/json''],
         ''Content-Type-Class'' \<mapsto> [''caddy_post_json_v1''],
         ''Content-Length'' \<mapsto> [''258'']],
      Body = alice_json,
      ContentLength = 258,
      MultipartForm = Some alice_form\<rparr>"

text \<open>A form with no part, converted.\<close>

definition empty_converted :: Request where
  "empty_converted =
     \<lparr>Method = ''POST'',
      Header =
        [''Content-Type'' \<mapsto> [''application/json''],
         ''Content-Type-Class'' \<mapsto> [''caddy_post_json_v1''],
         ''Content-Length'' \<mapsto> [''5'']],
      Body = ''null'' @ [CHR 0x0A],
      ContentLength = 5,
      MultipartForm = Some \<lparr>FormValue = [], FormFile = []\<rparr>\<rparr>"

text \<open>A library whose reader finds a form with a broken upload, and one whose removal
  of temporary files fails.\<close>

definition torn_form :: Form where
  "torn_form =
     \<lparr>FormValue = [(''name'', [''Alice''])],
      FormFile = [(''avatar'', [avatar_png, torn_upload]), (''doc'', [lost_upload])]\<rparr>"

definition torn_lib :: stdlib where
  "torn_lib = example_lib\<lparr>ReadForm := (\<lambda>boundary body maxMemory. Inr torn_form)\<rparr>"

definition stuck_lib :: stdlib where
  "stuck_lib =
     example_lib\<lparr>RemoveAll := (\<lambda>form. Some (OtherError ''remove multipart-1: permission denied''))\<rparr>"

text \<open>A library whose reader finds a form whose only upload cannot be opened.\<close>

definition lost_form :: Form where
  "lost_form = \<lparr>FormValue = [(''name'', [''Alice''])], FormFile = [(''doc'', [lost_upload])]\<rparr>"

definition lost_lib :: stdlib where
  "lost_lib = example_lib\<lparr>ReadForm := (\<lambda>boundary body maxMemory. Inr lost_form)\<rparr>"

section \<open>Lemmas\<close>

subsection \<open>Base64: the encoder against the reference decoder\<close>



lemma index_of_nth: "distinct xs \<Longrightarrow> n < length xs \<Longrightarrow> index_of (xs ! n) xs = Some n"
proof (induction xs arbitrary: n)
  case Nil
  then show ?case by simp
next
  case (Cons x xs)
  then show ?case by (cases n) auto
qed






























lemma full_blocks_Cons3:
  "3 * (length (a # b # c # xs) div 3) = Suc (Suc (Suc (3 * (length xs div 3))))"
proof -
  have "length (a # b # c # xs) = length xs + 3" by simp
  then have "length (a # b # c # xs) div 3 = Suc (length xs div 3)" by (simp only: div_add_self2)
  then show ?thesis by simp
qed

lemma Encode_take_drop:
  "Encode (take (3 * (length bs div 3)) bs) @ Encode (drop (3 * (length bs div 3)) bs) = Encode bs"
proof (induction bs rule: Encode.induct)
  case (1 b0 b1 b2 src)
  show ?case
    unfolding full_blocks_Cons3 using 1 by (simp add: Let_def)
qed simp_all

subsection \<open>The loops\<close>

lemma append_values_eq:
  "append_values name values converted = converted @ map (\<lambda>v. text_part (name, v)) values"
  by (induction "values" arbitrary: converted) (simp_all add: text_part_def)

lemma range_Value_eq:
  "range_Value vs converted = converted @ map text_part (pairs vs)"
  by (induction vs arbitrary: converted) (auto simp add: append_values_eq comp_def)

lemma encodeFileIntoMemory_cases:
  "encodeFileIntoMemory name fh =
     (case Open fh of
        Inl e \<Rightarrow> (part_zero, Some e)
      | Inr f \<Rightarrow>
          (case fail f of
             Some e \<Rightarrow> (part_zero, Some e)
           | None \<Rightarrow>
               (\<lparr>Name = name, Type = ''file/base64'', Value = Encode (data f),
                 ContentType = Header_Get (MIMEHeader fh) ''Content-Type'',
                 FileName = Filename fh\<rparr>, None)))"
  by (simp add: encodeFileIntoMemory_def io_Copy_def b64enc_Close_def Encode_take_drop
      split: sum.split option.split)

lemma encodeFileIntoMemory_fails:
  "snd (encodeFileIntoMemory name fh) = Some e \<Longrightarrow> encodeFileIntoMemory name fh = (part_zero, Some e)"
  by (auto simp add: encodeFileIntoMemory_cases split: sum.splits option.splits)

lemma append_files_Inr:
  "append_files name files converted = Inr c \<Longrightarrow>
     c = converted @ map (\<lambda>f. file_part (name, f)) files \<and>
     list_all (\<lambda>f. \<not> encode_fails (name, f)) files"
proof (induction files arbitrary: converted)
  case Nil
  then show ?case by simp
next
  case (Cons fh files)
  from Cons.prems obtain p where
    enc: "encodeFileIntoMemory name fh = (p, None)" and
    rest: "append_files name files (converted @ [p]) = Inr c"
    by (cases "encodeFileIntoMemory name fh") (auto split: option.splits)
  from Cons.IH [OF rest] show ?case
    by (simp add: file_part_def encode_fails_def enc)
qed

lemma append_files_Inl:
  "append_files name files converted = Inl e \<Longrightarrow>
     \<exists>fh \<in> set files. encodeFileIntoMemory name fh = (part_zero, Some e)"
proof (induction files arbitrary: converted)
  case Nil
  then show ?case by simp
next
  case (Cons fh files)
  show ?case
  proof (cases "snd (encodeFileIntoMemory name fh)")
    case None
    then have "append_files name files (converted @ [fst (encodeFileIntoMemory name fh)]) = Inl e"
      using Cons.prems by (cases "encodeFileIntoMemory name fh") simp
    from Cons.IH [OF this] show ?thesis by auto
  next
    case (Some e')
    then have "e' = e"
      using Cons.prems by (cases "encodeFileIntoMemory name fh") simp
    with Some show ?thesis
      using encodeFileIntoMemory_fails [of name fh e] by simp
  qed
qed

lemma append_files_no_failure:
  "list_all (\<lambda>f. \<not> encode_fails (name, f)) files \<Longrightarrow>
     append_files name files converted = Inr (converted @ map (\<lambda>f. file_part (name, f)) files)"
proof (induction files arbitrary: converted)
  case Nil
  then show ?case by simp
next
  case (Cons fh files)
  then show ?case
    by (cases "encodeFileIntoMemory name fh")
       (auto simp add: file_part_def encode_fails_def split: option.splits)
qed

lemma range_File_Inr:
  "range_File fs converted = Inr c \<Longrightarrow>
     c = converted @ map file_part (pairs fs) \<and> list_all (\<lambda>nf. \<not> encode_fails nf) (pairs fs)"
proof (induction fs arbitrary: converted)
  case Nil
  then show ?case by simp
next
  case (Cons nfs fs)
  obtain name files where nfs: "nfs = (name, files)" by (cases nfs)
  from Cons.prems obtain c' where
    c': "append_files name files converted = Inr c'" and rest: "range_File fs c' = Inr c"
    by (auto simp add: nfs split: sum.splits)
  from append_files_Inr [OF c'] Cons.IH [OF rest] show ?case
    by (simp add: nfs comp_def list.pred_map)
qed

lemma range_File_Inl:
  "range_File fs converted = Inl e \<Longrightarrow>
     \<exists>nf \<in> set (pairs fs). encodeFileIntoMemory (fst nf) (snd nf) = (part_zero, Some e)"
proof (induction fs arbitrary: converted)
  case Nil
  then show ?case by simp
next
  case (Cons nfs fs)
  obtain name files where nfs: "nfs = (name, files)" by (cases nfs)
  show ?case
  proof (cases "append_files name files converted")
    case (Inl e')
    then have "e' = e" using Cons.prems by (simp add: nfs)
    with append_files_Inl [of name files converted e] Inl obtain fh where
      "fh \<in> set files" "encodeFileIntoMemory name fh = (part_zero, Some e)" by auto
    then have "(name, fh) \<in> set (pairs (nfs # fs))"
      "encodeFileIntoMemory (fst (name, fh)) (snd (name, fh)) = (part_zero, Some e)"
      by (simp_all add: nfs)
    then show ?thesis by blast
  next
    case (Inr c')
    then have "range_File fs c' = Inl e" using Cons.prems by (simp add: nfs)
    from Cons.IH [OF this] show ?thesis by (auto simp add: nfs)
  qed
qed

lemma range_File_no_failure:
  "list_all (\<lambda>nf. \<not> encode_fails nf) (pairs fs) \<Longrightarrow>
     range_File fs converted = Inr (converted @ map file_part (pairs fs))"
proof (induction fs arbitrary: converted)
  case Nil
  then show ?case by simp
next
  case (Cons nfs fs)
  obtain name files where nfs: "nfs = (name, files)" by (cases nfs)
  from Cons.prems have a: "list_all (\<lambda>f. \<not> encode_fails (name, f)) files"
    and b: "list_all (\<lambda>nf. \<not> encode_fails nf) (pairs fs)"
    by (simp_all add: nfs list.pred_map comp_def)
  show ?case
    by (simp add: nfs append_files_no_failure [OF a] Cons.IH [OF b] comp_def)
qed

subsection \<open>Decimal numerals\<close>

lemma parse_digits_append:
  "parse_digits (xs @ ys) acc =
     (case parse_digits xs acc of None \<Rightarrow> None | Some a \<Rightarrow> parse_digits ys a)"
  by (induction xs arbitrary: acc) (auto split: option.splits)

lemma digit_index: "d < 10 \<Longrightarrow> index_of (decimal ! d) decimal = Some d"
  by (rule index_of_nth) (simp_all add: decimal_def)

lemma parse_digits_uitoa: "parse_digits (uitoa n) 0 = Some n"
proof (induction n rule: uitoa.induct)
  case (1 n)
  show ?case
  proof (cases "n < 10")
    case True
    then show ?thesis by (subst uitoa.simps) (simp add: digit_index del: uitoa.simps)
  next
    case False
    have d: "n mod 10 < 10" by simp
    from False 1 have "parse_digits (uitoa (n div 10)) 0 = Some (n div 10)" by simp
    with False show ?thesis
      by (subst uitoa.simps) (simp add: parse_digits_append digit_index [OF d] del: uitoa.simps)
  qed
qed

lemma uitoa_not_Nil: "uitoa n \<noteq> []"
  by (subst uitoa.simps) (simp del: uitoa.simps)

lemma Atoi_Itoa: "Atoi (Itoa (int n)) = Some n"
  by (simp add: Atoi_def Itoa_def uitoa_not_Nil parse_digits_uitoa del: uitoa.simps)

subsection \<open>The paths through ServeHTTP\<close>

lemma eligible_iff:
  "eligible r \<longleftrightarrow>
     Method r = ''POST'' \<and>
     (\<exists>params. Header_Get (Header r) ''Content-Type'' = ''application/x-www-form-urlencoded'' @ params \<or>
               Header_Get (Header r) ''Content-Type'' = ''multipart/form-data'' @ params)"
  by (auto simp add: eligible_def MethodPost_def prefix_def)

lemma ServeHTTP_not_eligible: "\<not> eligible r \<Longrightarrow> ServeHTTP lib h r = Next r"
  by (auto simp add: ServeHTTP_def eligible_def Let_def)

lemma ServeHTTP_eligible:
  "eligible r \<Longrightarrow>
   ServeHTTP lib h r =
     (case ParseMultipartForm lib r (MemoryLimit h) of
        Inl e \<Rightarrow> Abort (Error StatusBadRequest e)
      | Inr form \<Rightarrow>
          (case range_File (FormFile form) (range_Value (FormValue form) []) of
             Inl e \<Rightarrow> Abort (Error StatusInternalServerError e)
           | Inr converted \<Rightarrow>
               (case RemoveAll lib form of
                  Some e \<Rightarrow> Abort (Error StatusInternalServerError e)
                | None \<Rightarrow>
                    Next (r\<lparr>MultipartForm := Some form,
                            Body := fst (json_Encode lib converted),
                            Header :=
                              Header_Set
                                (Header_Set
                                   (Header_Set (Header r) ''Content-Type'' ''application/json'')
                                   ''Content-Type-Class'' ''caddy_post_json_v1'')
                                ''Content-Length''
                                (Itoa (int (length (fst (json_Encode lib converted))))),
                            ContentLength := int (length (fst (json_Encode lib converted)))\<rparr>))))"
  by (auto simp add: ServeHTTP_def eligible_def Let_def json_Encode_def
      split: sum.splits option.splits)

lemma ServeHTTP_Next:
  assumes "eligible r" and "ServeHTTP lib h r = Next r'"
  shows "\<exists>form buf.
           ParseMultipartForm lib r (MemoryLimit h) = Inr form \<and>
           list_all (\<lambda>nf. \<not> encode_fails nf) (uploads form) \<and>
           RemoveAll lib form = None \<and>
           buf = fst (json_Encode lib (map text_part (field_values form) @ map file_part (uploads form))) \<and>
           r' = r\<lparr>MultipartForm := Some form,
                  Body := buf,
                  Header :=
                    Header_Set
                      (Header_Set
                         (Header_Set (Header r) ''Content-Type'' ''application/json'')
                         ''Content-Type-Class'' ''caddy_post_json_v1'')
                      ''Content-Length'' (Itoa (int (length buf))),
                  ContentLength := int (length buf)\<rparr>"
proof -
  from assms obtain form where
    form: "ParseMultipartForm lib r (MemoryLimit h) = Inr form"
    by (auto simp add: ServeHTTP_eligible split: sum.splits)
  from assms form obtain converted where
    conv: "range_File (FormFile form) (range_Value (FormValue form) []) = Inr converted"
    by (auto simp add: ServeHTTP_eligible split: sum.splits)
  from assms form conv have rm: "RemoveAll lib form = None"
    by (auto simp add: ServeHTTP_eligible split: option.splits)
  from range_File_Inr [OF conv]
  have c: "converted = map text_part (field_values form) @ map file_part (uploads form)"
    and ok: "list_all (\<lambda>nf. \<not> encode_fails nf) (uploads form)"
    by (simp_all add: range_Value_eq field_values_def uploads_def)
  from assms form conv rm show ?thesis
    by (simp add: ServeHTTP_eligible c [symmetric] ok)
qed

subsection \<open>The example requests, evaluated\<close>

lemma mediatype_urlencoded:
  "mediatype ''application/x-www-form-urlencoded'' = ''application/x-www-form-urlencoded''"
  by (simp add: mediatype_def TrimSpace_def ToLower_def trim.simps space_width_def isSpace_def
      unicode_spaces_def)

lemma mediatype_multipart: "mediatype ''multipart/form-data; boundary=b'' = ''multipart/form-data''"
  by (simp add: mediatype_def TrimSpace_def ToLower_def trim.simps space_width_def isSpace_def
      unicode_spaces_def)


lemma eligible_post:
  "eligible (post ct body) \<longleftrightarrow>
     prefix ''application/x-www-form-urlencoded'' ct \<or> prefix ''multipart/form-data'' ct"
  by (simp add: eligible_def post_def MethodPost_def Header_Get_def)

lemma multipartReader_urlencoded: "multipartReader lib urlencoded_request = Inl ErrNotMultipart"
  by (simp add: multipartReader_def urlencoded_request_def post_def Header_Get_def Let_def
      mediatype_urlencoded split: option.split)

lemma Parse_urlencoded: "ParseMultipartForm lib urlencoded_request m = Inl ErrNotMultipart"
proof -
  have "MultipartForm urlencoded_request = None"
    by (simp add: urlencoded_request_def post_def)
  then show ?thesis
    by (simp add: ParseMultipartForm_def multipartReader_urlencoded)
qed


lemma body_neq: "alice_body \<noteq> empty_body"
  by (simp add: alice_body_def empty_body_def crlf_def)

lemma Parse_alice: "ParseMultipartForm example_lib alice_request m = Inr alice_form"
  by (simp add: ParseMultipartForm_def multipartReader_def alice_request_def post_def
      Header_Get_def mediatype_multipart example_lib_def)

lemma Parse_empty:
  "ParseMultipartForm example_lib empty_request m = Inr \<lparr>FormValue = [], FormFile = []\<rparr>"
  using body_neq
  by (simp add: ParseMultipartForm_def multipartReader_def empty_request_def post_def
      Header_Get_def mediatype_multipart example_lib_def)

lemma Encode_PNGDATA: "Encode [0x50, 0x4E, 0x47, 0x44, 0x41, 0x54, 0x41] = ''UE5HREFUQQ==''"
  by (simp add: sextet_def encodeStd_def padChar_def)

lemma avatar_part:
  "encodeFileIntoMemory ''avatar'' avatar_png =
     (\<lparr>Name = ''avatar'', Type = ''file/base64'', Value = ''UE5HREFUQQ=='',
       ContentType = ''image/png'', FileName = ''avatar.png''\<rparr>, None)"
  by (simp add: encodeFileIntoMemory_cases avatar_png_def Encode_PNGDATA Header_Get_def
      del: Encode.simps)

lemma eligible_alice: "eligible alice_request"
  by (simp add: alice_request_def eligible_post)

lemma alice_parts:
  "range_File (FormFile alice_form) (range_Value (FormValue alice_form) []) =
     Inr [\<lparr>Name = ''name'', Type = ''field/text'', Value = ''Alice'', ContentType = [], FileName = []\<rparr>,
          \<lparr>Name = ''a'', Type = ''field/text'', Value = ''1'', ContentType = [], FileName = []\<rparr>,
          \<lparr>Name = ''a'', Type = ''field/text'', Value = ''2'', ContentType = [], FileName = []\<rparr>,
          \<lparr>Name = ''avatar'', Type = ''file/base64'', Value = ''UE5HREFUQQ=='',
            ContentType = ''image/png'', FileName = ''avatar.png''\<rparr>]"
  by (simp add: alice_form_def avatar_part)

lemma alice_buf:
  "json_Encode example_lib
     [\<lparr>Name = ''name'', Type = ''field/text'', Value = ''Alice'', ContentType = [], FileName = []\<rparr>,
      \<lparr>Name = ''a'', Type = ''field/text'', Value = ''1'', ContentType = [], FileName = []\<rparr>,
      \<lparr>Name = ''a'', Type = ''field/text'', Value = ''2'', ContentType = [], FileName = []\<rparr>,
      \<lparr>Name = ''avatar'', Type = ''file/base64'', Value = ''UE5HREFUQQ=='',
        ContentType = ''image/png'', FileName = ''avatar.png''\<rparr>] = (alice_json, None)"
  by (simp add: json_Encode_def Marshal_def part_members_def omitempty_def json_object_def
      json_member_def example_lib_def alice_json_def js_def dquote_def)

lemma length_alice_json: "length alice_json = 258"
  by (simp add: alice_json_def js_def dquote_def)

lemma Itoa_258: "Itoa 258 = ''258''"
  by (simp add: Itoa_def decimal_def)

lemma RemoveAll_example: "RemoveAll example_lib form = None"
  by (simp add: example_lib_def)

lemma ServeHTTP_alice: "ServeHTTP example_lib h alice_request = Next alice_converted"
  by (simp add: ServeHTTP_eligible [OF eligible_alice] Parse_alice alice_parts alice_buf
      length_alice_json Itoa_258 RemoveAll_example)
     (simp add: alice_request_def post_def alice_converted_def Header_Set_def fun_upd_twist)

lemma converted_headers:
  fixes h0 :: header and n :: string
  defines "H \<equiv> Header_Set
                 (Header_Set (Header_Set h0 ''Content-Type'' ''application/json'')
                    ''Content-Type-Class'' ''caddy_post_json_v1'')
                 ''Content-Length'' n"
  shows "Header_Get H ''Content-Type'' = ''application/json''"
    and "Header_Get H ''Content-Type-Class'' = ''caddy_post_json_v1''"
    and "Header_Get H ''Content-Length'' = n"
  by (simp_all add: H_def Header_Get_def Header_Set_def)

subsection \<open>Parts by kind and by name\<close>

lemma filter_pairs_absent:
  "name \<notin> fst ` set vs \<Longrightarrow> filter (\<lambda>nx. fst nx = name) (pairs vs) = []"
  by (induction vs rule: pairs.induct) (auto simp add: filter_empty_conv)

lemma filter_pairs:
  "distinct (map fst vs) \<Longrightarrow> (name, xs) \<in> set vs \<Longrightarrow>
     filter (\<lambda>nx. fst nx = name) (pairs vs) = map (Pair name) xs"
proof (induction vs rule: pairs.induct)
  case 1
  then show ?case by simp
next
  case (2 n ys rest)
  show ?case
  proof (cases "n = name")
    case True
    with 2(2,3) have "xs = ys" and "name \<notin> fst ` set rest"
      by (auto simp add: rev_image_eqI)
    then show ?thesis
      using True by (simp add: filter_pairs_absent filter_map comp_def)
  next
    case False
    with 2 have "filter (\<lambda>nx. fst nx = name) (pairs rest) = map (Pair name) xs" by auto
    with False show ?thesis by (simp add: filter_map comp_def)
  qed
qed

lemma file_part_success:
  "\<not> encode_fails (name, fh) \<Longrightarrow>
     \<exists>f. Open fh = Inr f \<and> fail f = None \<and>
         file_part (name, fh) =
           \<lparr>Name = name, Type = ''file/base64'', Value = Encode (data f),
            ContentType = Header_Get (MIMEHeader fh) ''Content-Type'',
            FileName = Filename fh\<rparr>"
  by (auto simp add: encode_fails_def file_part_def encodeFileIntoMemory_cases
      split: sum.splits option.splits)

lemma Type_file_part: "\<not> encode_fails nf \<Longrightarrow> Type (file_part nf) = ''file/base64''"
  using file_part_success [of "fst nf" "snd nf"] by auto

lemma Name_file_part: "\<not> encode_fails nf \<Longrightarrow> Name (file_part nf) = fst nf"
  using file_part_success [of "fst nf" "snd nf"] by auto

lemma filter_file_parts:
  "list_all (\<lambda>nf. \<not> encode_fails nf) ups \<Longrightarrow>
     filter (\<lambda>p. Name p = name) (map file_part ups) =
       map file_part (filter (\<lambda>nf. fst nf = name) ups)"
  by (induction ups) (simp_all add: Name_file_part)



lemma Marshal_nonempty:
  "converted \<noteq> [] \<Longrightarrow> Marshal converted = JArray (map part_members converted)"
  by (simp add: Marshal_def)

lemma find_SomeD: "find P xs = Some x \<Longrightarrow> x \<in> set xs \<and> P x"
  by (induction xs) (auto split: if_splits)

lemma space_width_solid_head: "solid ws x \<Longrightarrow> space_width ws (x # ys) = 0"
proof -
  assume s: "solid ws x"
  have "find (\<lambda>w. prefix w (x # ys)) ws = None \<or>
        (\<exists>w. find (\<lambda>w. prefix w (x # ys)) ws = Some w \<and> w = [])"
  proof (cases "find (\<lambda>w. prefix w (x # ys)) ws")
    case None
    then show ?thesis by simp
  next
    case (Some w)
    then have "w \<in> set ws" "prefix w (x # ys)"
      using find_SomeD [of "\<lambda>w. prefix w (x # ys)" ws w] by simp_all
    with s have "x \<notin> set w" by (auto simp add: solid_def list_all_iff)
    with \<open>prefix w (x # ys)\<close> have "w = []" by (cases w) auto
    with Some show ?thesis by simp
  qed
  with s show ?thesis by (auto simp add: space_width_def solid_def)
qed

lemma trim_solid_head: "solid ws x \<Longrightarrow> trim ws (x # ys) = x # ys"
  by (subst trim.simps) (simp add: space_width_solid_head)

lemma space_width_snoc:
  assumes "solid ws x"
  shows "space_width ws (xs @ [x]) \<le> length xs"
proof (cases xs)
  case Nil
  with assms show ?thesis by (simp add: space_width_solid_head)
next
  case (Cons c cs)
  show ?thesis
  proof (cases "isSpace c")
    case True
    with Cons show ?thesis by (simp add: space_width_def)
  next
    case False
    show ?thesis
    proof (cases "find (\<lambda>w. prefix w (xs @ [x])) ws")
      case None
      with Cons False show ?thesis by (simp add: space_width_def)
    next
      case (Some w)
      then have "w \<in> set ws" "prefix w (xs @ [x])"
        using find_SomeD [of "\<lambda>w. prefix w (xs @ [x])" ws w] by simp_all
      with assms have "x \<notin> set w" by (auto simp add: solid_def list_all_iff)
      with \<open>prefix w (xs @ [x])\<close> have "prefix w xs"
        by (auto simp add: prefix_snoc)
      then have "length w \<le> length xs" by (rule prefix_length_le)
      with Cons False Some show ?thesis by (simp add: space_width_def)
    qed
  qed
qed

lemma trim_snoc:
  assumes "solid ws x"
  shows "\<exists>zs. trim ws (xs @ [x]) = zs @ [x]"
proof (induction "length xs" arbitrary: xs rule: less_induct)
  case less
  show ?case
  proof (cases "space_width ws (xs @ [x]) = 0")
    case True
    then have "trim ws (xs @ [x]) = xs @ [x]" by (subst trim.simps) simp
    then show ?thesis by blast
  next
    case False
    let ?k = "space_width ws (xs @ [x])"
    from space_width_snoc [OF assms, of xs] have k: "?k \<le> length xs" .
    with False have shorter: "length (drop ?k xs) < length xs" by simp
    from k have "drop ?k (xs @ [x]) = drop ?k xs @ [x]" by simp
    with False have "trim ws (xs @ [x]) = trim ws (drop ?k xs @ [x])"
      by (subst trim.simps) simp
    with less [OF shorter] show ?thesis by simp
  qed
qed

lemma TrimSpace_keeps_head:
  assumes "solid unicode_spaces a" and "solid (map rev unicode_spaces) a"
  shows "\<exists>zs. TrimSpace (a # ys) = a # zs"
proof -
  from trim_snoc [OF assms(2), of "rev ys"] obtain zs where
    "trim (map rev unicode_spaces) (rev ys @ [a]) = zs @ [a]" by blast
  then have "TrimSpace (a # ys) = a # rev zs"
    by (simp add: TrimSpace_def trim_solid_head [OF assms(1)])
  then show ?thesis by blast
qed

lemma solid_a: "solid unicode_spaces CHR ''a''" "solid (map rev unicode_spaces) CHR ''a''"
  by (simp_all add: solid_def isSpace_def unicode_spaces_def)

lemma mediatype_urlencoded_prefix:
  "mediatype (''application/x-www-form-urlencoded'' @ params) \<noteq> ''multipart/form-data''"
proof -
  from TrimSpace_keeps_head [OF solid_a] obtain zs where
    "mediatype (''application/x-www-form-urlencoded'' @ params) = CHR ''a'' # zs"
    by (simp add: mediatype_def ToLower_def) blast
  then show ?thesis by simp
qed

lemma urlencoded_posts_are_rejected:
  assumes "Method r = ''POST''"
    and "Header_Get (Header r) ''Content-Type'' = ''application/x-www-form-urlencoded'' @ params"
    and "MultipartForm r = None"
  shows "ServeHTTP lib h r = Abort \<lparr>StatusCode = 400, Err = ErrNotMultipart\<rparr>"
proof -
  have e: "eligible r"
    using assms(1,2) by (simp add: eligible_def MethodPost_def)
  have "multipartReader lib r = Inl ErrNotMultipart"
    using mediatype_urlencoded_prefix [of params]
    by (simp add: multipartReader_def assms(2) Let_def split: option.split)
  then have "ParseMultipartForm lib r (MemoryLimit h) = Inl ErrNotMultipart"
    by (simp add: ParseMultipartForm_def assms(3))
  with e show ?thesis
    by (simp add: ServeHTTP_eligible Error_def StatusBadRequest_def)
qed

subsection \<open>White space outside ASCII\<close>

lemma mediatype_no_break_space:
  "mediatype (''multipart/form-data'' @ [CHR 0xC2, CHR 0xA0] @ ''; boundary=b'') =
     ''multipart/form-data''"
  by (simp add: mediatype_def TrimSpace_def ToLower_def trim.simps space_width_def isSpace_def
      unicode_spaces_def)

subsection \<open>Failing uploads\<close>

lemma encodeFileIntoMemory_upload_error:
  "snd (encodeFileIntoMemory name fh) = upload_error fh"
  by (simp add: encodeFileIntoMemory_cases upload_error_def split: sum.split option.split)

lemma encodeFileIntoMemory_zero:
  "upload_error fh = Some e \<Longrightarrow> encodeFileIntoMemory name fh = (part_zero, Some e)"
  by (rule encodeFileIntoMemory_fails) (simp add: encodeFileIntoMemory_upload_error)

lemma encode_fails_iff: "encode_fails nf \<longleftrightarrow> upload_error (snd nf) \<noteq> None"
  by (simp add: encode_fails_def encodeFileIntoMemory_upload_error)

lemma first_error_append:
  "first_error (xs @ ys) = (case first_error xs of Some e \<Rightarrow> Some e | None \<Rightarrow> first_error ys)"
  by (induction xs rule: first_error.induct) (simp_all split: option.split)

lemma first_error_None:
  "first_error ups = None \<longleftrightarrow> list_all (\<lambda>nf. upload_error (snd nf) = None) ups"
  by (induction ups rule: first_error.induct) (simp_all split: option.split)

lemma first_error_Some:
  "first_error ups = Some e \<Longrightarrow> \<exists>nf. nf \<in> set ups \<and> upload_error (snd nf) = Some e"
  by (induction ups rule: first_error.induct) (auto split: option.splits)

lemma append_files_first_error:
  "first_error (map (Pair name) files) = Some e \<Longrightarrow> append_files name files converted = Inl e"
proof (induction files arbitrary: converted)
  case Nil
  then show ?case by simp
next
  case (Cons fh files)
  show ?case
  proof (cases "upload_error fh")
    case None
    with Cons.prems have "first_error (map (Pair name) files) = Some e" by simp
    from Cons.IH [OF this] None show ?thesis
      using encodeFileIntoMemory_upload_error [of name fh]
      by (cases "encodeFileIntoMemory name fh") simp
  next
    case (Some e')
    with Cons.prems have "e' = e" by simp
    with Some show ?thesis
      by (simp add: encodeFileIntoMemory_zero)
  qed
qed

lemma range_File_first_error:
  "first_error (pairs fs) = Some e \<Longrightarrow> range_File fs converted = Inl e"
proof (induction fs arbitrary: converted)
  case Nil
  then show ?case by simp
next
  case (Cons nfs fs)
  obtain name files where nfs: "nfs = (name, files)" by (cases nfs)
  show ?case
  proof (cases "first_error (map (Pair name) files)")
    case None
    then have ok: "list_all (\<lambda>f. \<not> encode_fails (name, f)) files"
      by (simp add: first_error_None encode_fails_iff list.pred_map comp_def)
    from None Cons.prems have "first_error (pairs fs) = Some e"
      by (simp add: nfs first_error_append)
    from Cons.IH [OF this] show ?thesis
      by (simp add: nfs append_files_no_failure [OF ok])
  next
    case (Some e')
    with Cons.prems have "e' = e" by (simp add: nfs first_error_append)
    with Some show ?thesis
      by (simp add: nfs append_files_first_error)
  qed
qed

lemma range_File_no_error:
  "first_error (pairs fs) = None \<Longrightarrow>
     range_File fs converted = Inr (converted @ map file_part (pairs fs))"
  by (rule range_File_no_failure)
     (simp add: first_error_None encode_fails_iff)

section \<open>The claims\<close>

text \<open>C1. The scenario of the specification: a POST with
  \<^verbatim>\<open>Content-Type: application/x-www-form-urlencoded\<close> and body \<^verbatim>\<open>a=1&a=2\<close>
  is said to be converted into two parts named \<^verbatim>\<open>a\<close>. The handler parses with
  \<^verbatim>\<open>ParseMultipartForm\<close>, which refuses every request whose media type is not
  \<^verbatim>\<open>multipart/form-data\<close>: whatever the library's other answers are, the request
  ends in HTTP 400 with \<^verbatim>\<open>ErrNotMultipart\<close> and the next handler is not called.\<close>

theorem urlencoded_post_is_rejected:
  "ServeHTTP lib h urlencoded_request = Abort \<lparr>StatusCode = 400, Err = ErrNotMultipart\<rparr>"
proof -
  have "eligible urlencoded_request"
    by (simp add: urlencoded_request_def eligible_post)
  then show ?thesis
    by (simp add: ServeHTTP_eligible Parse_urlencoded Error_def StatusBadRequest_def)
qed

text \<open>C2. After \<^verbatim>\<open>Provision\<close> a handler configured with a non-positive memory
  limit is said to use 2 MiB. \<^verbatim>\<open>Provision\<close> assigns the default to its own copy
  of the handler: the handler it was called on keeps the configured limit, here 0, and
  that is the limit \<^verbatim>\<open>ServeHTTP\<close> passes to the parser.\<close>

theorem Provision_leaves_limit_unchanged:
  "MemoryLimit (fst (Provision h)) = MemoryLimit h \<and>
   MemoryLimit (fst (Provision_body \<lparr>MemoryLimit = 0\<rparr>)) = 2097152 \<and>
   Provision \<lparr>MemoryLimit = 0\<rparr> = (\<lparr>MemoryLimit = 0\<rparr>, None)"
  by (simp add: Provision_def Provision_body_def defaultMemLimit_def)

text \<open>C3. \<^verbatim>\<open>ServeHTTP\<close> hands the request to the next handler as it came exactly
  when the method is not POST or the \<^verbatim>\<open>Content-Type\<close> header begins with neither
  \<^verbatim>\<open>application/x-www-form-urlencoded\<close> nor \<^verbatim>\<open>multipart/form-data\<close>; what
  follows the prefix (such as \<^verbatim>\<open>; boundary=...\<close>) plays no role.\<close>

theorem passthrough_unless_form_post:
  "(ServeHTTP lib h r = Next r) =
   (\<not> (Method r = ''POST'' \<and>
        (\<exists>params.
           Header_Get (Header r) ''Content-Type'' = ''application/x-www-form-urlencoded'' @ params \<or>
           Header_Get (Header r) ''Content-Type'' = ''multipart/form-data'' @ params)))"
proof (cases "eligible r")
  case False
  then show ?thesis
    using ServeHTTP_not_eligible [of r lib h] by (simp add: eligible_iff)
next
  case True
  have "ServeHTTP lib h r \<noteq> Next r"
  proof
    assume "ServeHTTP lib h r = Next r"
    from ServeHTTP_Next [OF True this] obtain form buf where
      eq: "r = r\<lparr>MultipartForm := Some form,
                 Body := buf,
                 Header :=
                   Header_Set
                     (Header_Set
                        (Header_Set (Header r) ''Content-Type'' ''application/json'')
                        ''Content-Type-Class'' ''caddy_post_json_v1'')
                     ''Content-Length'' (Itoa (int (length buf))),
                 ContentLength := int (length buf)\<rparr>"
      by blast
    have "Header_Get (Header r) ''Content-Type'' = ''application/json''"
      by (subst eq) (simp add: converted_headers)
    with True show False
      by (simp add: eligible_def)
  qed
  with True show ?thesis by (simp add: eligible_iff)
qed

theorem passthrough_unless_form_post_witness:
  "ServeHTTP example_lib \<lparr>MemoryLimit = 0\<rparr> json_request = Next json_request \<and>
   ServeHTTP example_lib \<lparr>MemoryLimit = 0\<rparr> alice_request \<noteq> Next alice_request"
  using passthrough_unless_form_post [of example_lib "\<lparr>MemoryLimit = 0\<rparr>" json_request]
    passthrough_unless_form_post [of example_lib "\<lparr>MemoryLimit = 0\<rparr>" alice_request]
  by (simp add: json_request_def alice_request_def post_def Header_Get_def)



text \<open>C5. On every successful conversion the encoded list is the text parts followed by
  the file parts; every text part has kind \<^verbatim>\<open>field/text\<close> and every file part kind
  \<^verbatim>\<open>file/base64\<close>; and the parts of one name are, in order, the parts of that
  name's values (or files) in the order of submission. Go maps hold every name once.\<close>

theorem text_parts_then_file_parts:
  assumes "eligible r"
    and "ServeHTTP lib h r = Next r'"
    and "MultipartForm r' = Some form"
    and "distinct (map fst (FormValue form))"
    and "distinct (map fst (FormFile form))"
  shows "Body r' =
           fst (json_Encode lib (map text_part (field_values form) @ map file_part (uploads form))) \<and>
         list_all (\<lambda>p. Type p = ''field/text'') (map text_part (field_values form)) \<and>
         list_all (\<lambda>p. Type p = ''file/base64'') (map file_part (uploads form)) \<and>
         list_all
           (\<lambda>(name, values).
              filter (\<lambda>p. Name p = name) (map text_part (field_values form)) =
                map (\<lambda>v. \<lparr>Name = name, Type = ''field/text'', Value = v,
                            ContentType = [], FileName = []\<rparr>) values)
           (FormValue form) \<and>
         list_all
           (\<lambda>(name, files).
              filter (\<lambda>p. Name p = name) (map file_part (uploads form)) =
                map (\<lambda>f. fst (encodeFileIntoMemory name f)) files)
           (FormFile form)"
proof -
  from ServeHTTP_Next [OF assms(1,2)] obtain form' buf where
    ok': "list_all (\<lambda>nf. \<not> encode_fails nf) (uploads form')"
    and buf: "buf = fst (json_Encode lib (map text_part (field_values form') @ map file_part (uploads form')))"
    and r': "r' = r\<lparr>MultipartForm := Some form',
                     Body := buf,
                     Header :=
                       Header_Set
                         (Header_Set
                            (Header_Set (Header r) ''Content-Type'' ''application/json'')
                            ''Content-Type-Class'' ''caddy_post_json_v1'')
                         ''Content-Length'' (Itoa (int (length buf))),
                     ContentLength := int (length buf)\<rparr>"
    by blast
  from assms(3) have [simp]: "form' = form" by (simp add: r')
  from ok' have ok: "list_all (\<lambda>nf. \<not> encode_fails nf) (uploads form)" by simp
  have body: "Body r' =
      fst (json_Encode lib (map text_part (field_values form) @ map file_part (uploads form)))"
    by (simp add: r' buf)
  have texts: "list_all (\<lambda>p. Type p = ''field/text'') (map text_part (field_values form))"
    by (simp add: list.pred_map comp_def text_part_def list.pred_True)
  have files: "list_all (\<lambda>p. Type p = ''file/base64'') (map file_part (uploads form))"
    using ok by (simp add: list.pred_map comp_def list_all_iff Type_file_part)
  have by_name_text:
    "list_all
       (\<lambda>(name, values).
          filter (\<lambda>p. Name p = name) (map text_part (field_values form)) =
            map (\<lambda>v. \<lparr>Name = name, Type = ''field/text'', Value = v,
                        ContentType = [], FileName = []\<rparr>) values)
       (FormValue form)"
    unfolding list_all_iff
  proof (clarify)
    fix name "values"
    assume "(name, values) \<in> set (FormValue form)"
    from filter_pairs [OF assms(4) this]
    show "filter (\<lambda>p. Name p = name) (map text_part (field_values form)) =
            map (\<lambda>v. \<lparr>Name = name, Type = ''field/text'', Value = v,
                        ContentType = [], FileName = []\<rparr>) values"
      by (simp add: filter_map comp_def field_values_def text_part_def)
  qed
  have by_name_file:
    "list_all
       (\<lambda>(name, files).
          filter (\<lambda>p. Name p = name) (map file_part (uploads form)) =
            map (\<lambda>f. fst (encodeFileIntoMemory name f)) files)
       (FormFile form)"
    unfolding list_all_iff
  proof (clarify)
    fix name files
    assume "(name, files) \<in> set (FormFile form)"
    from filter_pairs [OF assms(5) this]
    have "filter (\<lambda>nf. fst nf = name) (uploads form) = map (Pair name) files"
      by (simp add: uploads_def)
    moreover have "filter (\<lambda>p. Name p = name) (map file_part (uploads form)) =
                     map file_part (filter (\<lambda>nf. fst nf = name) (uploads form))"
      using ok by (rule filter_file_parts)
    ultimately show "filter (\<lambda>p. Name p = name) (map file_part (uploads form)) =
                       map (\<lambda>f. fst (encodeFileIntoMemory name f)) files"
      by (simp add: comp_def file_part_def)
  qed
  from body texts files by_name_text by_name_file show ?thesis by blast
qed

theorem text_parts_then_file_parts_witness:
  "eligible alice_request \<and>
   ServeHTTP example_lib \<lparr>MemoryLimit = 0\<rparr> alice_request = Next alice_converted \<and>
   MultipartForm alice_converted = Some alice_form \<and>
   distinct (map fst (FormValue alice_form)) \<and>
   distinct (map fst (FormFile alice_form)) \<and>
   (Body alice_converted =
      fst (json_Encode example_lib
             (map text_part (field_values alice_form) @ map file_part (uploads alice_form))) \<and>
    list_all (\<lambda>p. Type p = ''field/text'') (map text_part (field_values alice_form)) \<and>
    list_all (\<lambda>p. Type p = ''file/base64'') (map file_part (uploads alice_form)) \<and>
    list_all
      (\<lambda>(name, values).
         filter (\<lambda>p. Name p = name) (map text_part (field_values alice_form)) =
           map (\<lambda>v. \<lparr>Name = name, Type = ''field/text'', Value = v,
                       ContentType = [], FileName = []\<rparr>) values)
      (FormValue alice_form) \<and>
    list_all
      (\<lambda>(name, files).
         filter (\<lambda>p. Name p = name) (map file_part (uploads alice_form)) =
           map (\<lambda>f. fst (encodeFileIntoMemory name f)) files)
      (FormFile alice_form)) \<and>
   map Value (filter (\<lambda>p. Name p = ''a'') (map text_part (field_values alice_form))) =
     [''1'', ''2'']"
proof -
  have b: "ServeHTTP example_lib \<lparr>MemoryLimit = 0\<rparr> alice_request = Next alice_converted"
    by (rule ServeHTTP_alice)
  have c: "MultipartForm alice_converted = Some alice_form"
    by (simp add: alice_converted_def)
  have d: "distinct (map fst (FormValue alice_form))"
    by (simp add: alice_form_def)
  have e: "distinct (map fst (FormFile alice_form))"
    by (simp add: alice_form_def)
  note f = text_parts_then_file_parts [OF eligible_alice b c d e]
  have g: "map Value (filter (\<lambda>p. Name p = ''a'') (map text_part (field_values alice_form))) =
             [''1'', ''2'']"
    by (simp add: field_values_def alice_form_def text_part_def)
  show ?thesis
    by (rule conjI [OF eligible_alice conjI [OF b conjI [OF c conjI [OF d conjI [OF e conjI [OF f g]]]]]])
qed



text \<open>C7. On every successful conversion the request handed on carries
  \<^verbatim>\<open>Content-Type: application/json\<close>, \<^verbatim>\<open>Content-Type-Class: caddy_post_json_v1\<close>,
  a \<^verbatim>\<open>Content-Length\<close> header that is the decimal numeral of the number of bytes of
  the new body, and a \<^verbatim>\<open>ContentLength\<close> field equal to that number; the new body
  is the JSON encoding of the converted parts.\<close>

theorem converted_headers_and_length:
  assumes "eligible r"
    and "ServeHTTP lib h r = Next r'"
  shows "Header_Get (Header r') ''Content-Type'' = ''application/json'' \<and>
         Header_Get (Header r') ''Content-Type-Class'' = ''caddy_post_json_v1'' \<and>
         Header_Get (Header r') ''Content-Length'' = Itoa (int (length (Body r'))) \<and>
         Atoi (Header_Get (Header r') ''Content-Length'') = Some (length (Body r')) \<and>
         ContentLength r' = int (length (Body r')) \<and>
         (\<exists>form. MultipartForm r' = Some form \<and>
            Body r' =
              fst (json_Encode lib (map text_part (field_values form) @ map file_part (uploads form))))"
proof -
  from ServeHTTP_Next [OF assms] obtain form buf where
    buf: "buf = fst (json_Encode lib (map text_part (field_values form) @ map file_part (uploads form)))"
    and r': "r' = r\<lparr>MultipartForm := Some form,
                     Body := buf,
                     Header :=
                       Header_Set
                         (Header_Set
                            (Header_Set (Header r) ''Content-Type'' ''application/json'')
                            ''Content-Type-Class'' ''caddy_post_json_v1'')
                         ''Content-Length'' (Itoa (int (length buf))),
                     ContentLength := int (length buf)\<rparr>"
    by blast
  show ?thesis
    unfolding r' by (simp add: converted_headers Atoi_Itoa buf [symmetric])
qed

theorem converted_headers_and_length_witness:
  "eligible alice_request \<and>
   ServeHTTP example_lib \<lparr>MemoryLimit = 0\<rparr> alice_request = Next alice_converted \<and>
   (Header_Get (Header alice_converted) ''Content-Type'' = ''application/json'' \<and>
    Header_Get (Header alice_converted) ''Content-Type-Class'' = ''caddy_post_json_v1'' \<and>
    Header_Get (Header alice_converted) ''Content-Length'' =
      Itoa (int (length (Body alice_converted))) \<and>
    Atoi (Header_Get (Header alice_converted) ''Content-Length'') =
      Some (length (Body alice_converted)) \<and>
    ContentLength alice_converted = int (length (Body alice_converted)) \<and>
    (\<exists>form. MultipartForm alice_converted = Some form \<and>
       Body alice_converted =
         fst (json_Encode example_lib
                (map text_part (field_values form) @ map file_part (uploads form))))) \<and>
   (Header_Get (Header alice_converted) ''Content-Length'' = ''258'' \<and>
    ContentLength alice_converted = 258 \<and>
    length (Body alice_converted) = 258)"
proof -
  have b: "ServeHTTP example_lib \<lparr>MemoryLimit = 0\<rparr> alice_request = Next alice_converted"
    by (rule ServeHTTP_alice)
  note c = converted_headers_and_length [OF eligible_alice b]
  have d: "Header_Get (Header alice_converted) ''Content-Length'' = ''258'' \<and>
           ContentLength alice_converted = 258 \<and>
           length (Body alice_converted) = 258"
    by (simp add: alice_converted_def length_alice_json Header_Get_def)
  show ?thesis
    by (rule conjI [OF eligible_alice conjI [OF b conjI [OF c d]]])
qed

text \<open>C8. The new body is said to be a JSON array on every successful conversion, a
  form with no field and no file included. For such a form no part is appended, the
  slice stays nil, and the encoder writes \<^verbatim>\<open>null\<close>: the body handed on is the five
  bytes \<^verbatim>\<open>null\<close> and a newline, and \<^verbatim>\<open>Content-Length\<close> is 5.\<close>

theorem empty_form_body_is_null:
  "ServeHTTP example_lib h empty_request = Next empty_converted \<and>
   Body empty_converted = ''null'' @ [CHR 0x0A] \<and>
   Marshal [] = JNull"
proof -
  have a: "eligible empty_request"
    by (simp add: empty_request_def eligible_post)
  have b: "json_Encode example_lib [] = (''null'' @ [CHR 0x0A], None)"
    by (simp add: json_Encode_def Marshal_def)
  have c: "Itoa 5 = ''5''"
    by (simp add: Itoa_def decimal_def)
  have "ServeHTTP example_lib h empty_request = Next empty_converted"
    by (simp add: ServeHTTP_eligible [OF a] Parse_empty b c RemoveAll_example)
       (simp add: empty_request_def post_def empty_converted_def Header_Set_def fun_upd_twist)
  then show ?thesis
    by (simp add: empty_converted_def Marshal_def)
qed

text \<open>C9. For an eligible request whose form parsed: when some uploaded file cannot be
  opened or its read breaks off, \<^verbatim>\<open>ServeHTTP\<close> returns an HTTP 500 error whose cause
  is the error of the first such file in visiting order; when every file opens and reads
  to its end and the removal of the temporary files fails, it returns an HTTP 500 error
  whose cause is the removal's error. In both cases it does not reach the call of the next
  handler. For every file that fails, \<^verbatim>\<open>encodeFileIntoMemory\<close> returns the zero part
  with the file's error, and not what had reached its buffer.\<close>

theorem encode_or_cleanup_failure_is_internal_error:
  assumes "eligible r"
    and "ParseMultipartForm lib r (MemoryLimit h) = Inr form"
  shows "(\<not> list_all (\<lambda>nf. upload_error (snd nf) = None) (uploads form) \<longrightarrow>
            (\<exists>nf e. nf \<in> set (uploads form) \<and> upload_error (snd nf) = Some e \<and>
                    first_error (uploads form) = Some e \<and>
                    ServeHTTP lib h r = Abort \<lparr>StatusCode = 500, Err = e\<rparr>)) \<and>
         (list_all (\<lambda>nf. upload_error (snd nf) = None) (uploads form) \<and>
          RemoveAll lib form = Some e' \<longrightarrow>
            ServeHTTP lib h r = Abort \<lparr>StatusCode = 500, Err = e'\<rparr>) \<and>
         list_all
           (\<lambda>(name, fh).
              case upload_error fh of
                None \<Rightarrow> True
              | Some e \<Rightarrow> encodeFileIntoMemory name fh = (part_zero, Some e))
           (uploads form)"
proof (intro conjI impI)
  assume bad: "\<not> list_all (\<lambda>nf. upload_error (snd nf) = None) (uploads form)"
  then obtain e where e: "first_error (uploads form) = Some e"
    by (cases "first_error (uploads form)") (simp_all add: first_error_None)
  from first_error_Some [OF e] obtain nf where
    nf: "nf \<in> set (uploads form)" "upload_error (snd nf) = Some e"
    by blast
  from e have "range_File (FormFile form) (range_Value (FormValue form) []) = Inl e"
    by (simp add: uploads_def range_File_first_error)
  with assms have "ServeHTTP lib h r = Abort \<lparr>StatusCode = 500, Err = e\<rparr>"
    by (simp add: ServeHTTP_eligible Error_def StatusInternalServerError_def)
  with nf e show "\<exists>nf e. nf \<in> set (uploads form) \<and> upload_error (snd nf) = Some e \<and>
                    first_error (uploads form) = Some e \<and>
                    ServeHTTP lib h r = Abort \<lparr>StatusCode = 500, Err = e\<rparr>"
    by blast
next
  assume "list_all (\<lambda>nf. upload_error (snd nf) = None) (uploads form) \<and>
          RemoveAll lib form = Some e'"
  then have ok: "first_error (pairs (FormFile form)) = None"
    and rm: "RemoveAll lib form = Some e'"
    by (simp_all add: uploads_def first_error_None)
  show "ServeHTTP lib h r = Abort \<lparr>StatusCode = 500, Err = e'\<rparr>"
    using assms rm
    by (simp add: ServeHTTP_eligible range_File_no_error [OF ok] Error_def
        StatusInternalServerError_def)
next
  show "list_all
          (\<lambda>(name, fh).
             case upload_error fh of
               None \<Rightarrow> True
             | Some e \<Rightarrow> encodeFileIntoMemory name fh = (part_zero, Some e))
          (uploads form)"
    by (auto simp add: list_all_iff encodeFileIntoMemory_zero split: option.split)
qed

theorem encode_or_cleanup_failure_is_internal_error_witness:
  "eligible alice_request \<and>
   ParseMultipartForm torn_lib alice_request (MemoryLimit \<lparr>MemoryLimit = 0\<rparr>) = Inr torn_form \<and>
   \<not> list_all (\<lambda>nf. upload_error (snd nf) = None) (uploads torn_form) \<and>
   (\<exists>nf e. nf \<in> set (uploads torn_form) \<and> upload_error (snd nf) = Some e \<and>
           first_error (uploads torn_form) = Some e \<and>
           ServeHTTP torn_lib \<lparr>MemoryLimit = 0\<rparr> alice_request =
             Abort \<lparr>StatusCode = 500, Err = e\<rparr>) \<and>
   first_error (uploads torn_form) = Some (OtherError ''read multipart-1: input/output error'') \<and>
   io_Copy (OpenedFile [0x50, 0x4E, 0x47, 0x44, 0x41]
              (Some (OtherError ''read multipart-1: input/output error''))) =
     (''UE5H'', Some (OtherError ''read multipart-1: input/output error'')) \<and>
   encodeFileIntoMemory ''avatar'' torn_upload =
     (part_zero, Some (OtherError ''read multipart-1: input/output error'')) \<and>
   ServeHTTP torn_lib \<lparr>MemoryLimit = 0\<rparr> alice_request =
     Abort \<lparr>StatusCode = 500, Err = OtherError ''read multipart-1: input/output error''\<rparr> \<and>
   ParseMultipartForm lost_lib alice_request (MemoryLimit \<lparr>MemoryLimit = 0\<rparr>) = Inr lost_form \<and>
   \<not> list_all (\<lambda>nf. upload_error (snd nf) = None) (uploads lost_form) \<and>
   (\<exists>nf e. nf \<in> set (uploads lost_form) \<and> upload_error (snd nf) = Some e \<and>
           first_error (uploads lost_form) = Some e \<and>
           ServeHTTP lost_lib \<lparr>MemoryLimit = 0\<rparr> alice_request =
             Abort \<lparr>StatusCode = 500, Err = e\<rparr>) \<and>
   Open lost_upload = Inl (OtherError ''open multipart-1: no such file'') \<and>
   encodeFileIntoMemory ''doc'' lost_upload =
     (part_zero, Some (OtherError ''open multipart-1: no such file'')) \<and>
   ServeHTTP lost_lib \<lparr>MemoryLimit = 0\<rparr> alice_request =
     Abort \<lparr>StatusCode = 500, Err = OtherError ''open multipart-1: no such file''\<rparr> \<and>
   ParseMultipartForm stuck_lib alice_request (MemoryLimit \<lparr>MemoryLimit = 0\<rparr>) = Inr alice_form \<and>
   list_all (\<lambda>nf. upload_error (snd nf) = None) (uploads alice_form) \<and>
   RemoveAll stuck_lib alice_form = Some (OtherError ''remove multipart-1: permission denied'') \<and>
   ServeHTTP stuck_lib \<lparr>MemoryLimit = 0\<rparr> alice_request =
     Abort \<lparr>StatusCode = 500, Err = OtherError ''remove multipart-1: permission denied''\<rparr>"
proof -
  have p1': "ParseMultipartForm torn_lib alice_request 0 = Inr torn_form"
    by (simp add: ParseMultipartForm_def multipartReader_def alice_request_def post_def
        Header_Get_def mediatype_multipart torn_lib_def example_lib_def)
  then have p1: "ParseMultipartForm torn_lib alice_request (MemoryLimit \<lparr>MemoryLimit = 0\<rparr>) =
                   Inr torn_form"
    by simp
  have partial: "io_Copy (OpenedFile [0x50, 0x4E, 0x47, 0x44, 0x41]
                            (Some (OtherError ''read multipart-1: input/output error''))) =
                   (''UE5H'', Some (OtherError ''read multipart-1: input/output error''))"
    by (simp add: io_Copy_def sextet_def encodeStd_def)
  have torn: "encodeFileIntoMemory ''avatar'' torn_upload =
                (part_zero, Some (OtherError ''read multipart-1: input/output error''))"
    by (simp add: encodeFileIntoMemory_cases torn_upload_def avatar_png_def)
  have ups1: "uploads torn_form =
                [(''avatar'', avatar_png), (''avatar'', torn_upload), (''doc'', lost_upload)]"
    by (simp add: uploads_def torn_form_def)
  have first1: "first_error (uploads torn_form) =
                  Some (OtherError ''read multipart-1: input/output error'')"
    by (simp add: ups1 upload_error_def avatar_png_def torn_upload_def)
  have bad1: "\<not> list_all (\<lambda>nf. upload_error (snd nf) = None) (uploads torn_form)"
    by (simp add: ups1 upload_error_def torn_upload_def avatar_png_def)
  note t1 = encode_or_cleanup_failure_is_internal_error [OF eligible_alice p1]
  note some1 = t1 [THEN conjunct1, THEN mp, OF bad1]
  have s1: "ServeHTTP torn_lib \<lparr>MemoryLimit = 0\<rparr> alice_request =
              Abort \<lparr>StatusCode = 500, Err = OtherError ''read multipart-1: input/output error''\<rparr>"
    using some1 by (auto simp add: first1)
  have p2': "ParseMultipartForm lost_lib alice_request 0 = Inr lost_form"
    by (simp add: ParseMultipartForm_def multipartReader_def alice_request_def post_def
        Header_Get_def mediatype_multipart lost_lib_def example_lib_def)
  then have p2: "ParseMultipartForm lost_lib alice_request (MemoryLimit \<lparr>MemoryLimit = 0\<rparr>) =
                   Inr lost_form"
    by simp
  have opens: "Open lost_upload = Inl (OtherError ''open multipart-1: no such file'')"
    by (simp add: lost_upload_def)
  have lost: "encodeFileIntoMemory ''doc'' lost_upload =
                (part_zero, Some (OtherError ''open multipart-1: no such file''))"
    by (simp add: encodeFileIntoMemory_cases opens)
  have ups2: "uploads lost_form = [(''doc'', lost_upload)]"
    by (simp add: uploads_def lost_form_def)
  have first2: "first_error (uploads lost_form) = Some (OtherError ''open multipart-1: no such file'')"
    by (simp add: ups2 upload_error_def opens)
  have bad2: "\<not> list_all (\<lambda>nf. upload_error (snd nf) = None) (uploads lost_form)"
    by (simp add: ups2 upload_error_def opens)
  note t2 = encode_or_cleanup_failure_is_internal_error [OF eligible_alice p2]
  note some2 = t2 [THEN conjunct1, THEN mp, OF bad2]
  have s2: "ServeHTTP lost_lib \<lparr>MemoryLimit = 0\<rparr> alice_request =
              Abort \<lparr>StatusCode = 500, Err = OtherError ''open multipart-1: no such file''\<rparr>"
    using some2 by (auto simp add: first2)
  have p3: "ParseMultipartForm stuck_lib alice_request (MemoryLimit \<lparr>MemoryLimit = 0\<rparr>) =
              Inr alice_form"
    by (simp add: ParseMultipartForm_def multipartReader_def alice_request_def post_def
        Header_Get_def mediatype_multipart stuck_lib_def example_lib_def)
  have ok: "list_all (\<lambda>nf. upload_error (snd nf) = None) (uploads alice_form)"
    by (simp add: uploads_def alice_form_def upload_error_def avatar_png_def)
  have rm: "RemoveAll stuck_lib alice_form =
              Some (OtherError ''remove multipart-1: permission denied'')"
    by (simp add: stuck_lib_def)
  note t3 = encode_or_cleanup_failure_is_internal_error [OF eligible_alice p3]
  note s3 = t3 [THEN conjunct2, THEN conjunct1, THEN mp, OF conjI [OF ok rm]]
  show ?thesis
    by (intro conjI)
       (rule eligible_alice p1 bad1 some1 first1 partial torn s1 p2 bad2 some2 opens lost s2
          p3 ok rm s3)+
qed

text \<open>C10. In the JSON object of a part a member is present exactly when the field is
  not the empty string, and then it carries the field's value: each of \<^verbatim>\<open>name\<close>,
  \<^verbatim>\<open>type\<close>, \<^verbatim>\<open>value\<close>, \<^verbatim>\<open>content_type\<close> and \<^verbatim>\<open>file_name\<close> is left
  out when empty. A text field submitted with the empty value gives an object without a
  \<^verbatim>\<open>value\<close> member.\<close>

theorem empty_fields_are_omitted:
  "map_of (part_members p) ''name'' = (if Name p = [] then None else Some (Name p)) \<and>
   map_of (part_members p) ''type'' = (if Type p = [] then None else Some (Type p)) \<and>
   map_of (part_members p) ''value'' = (if Value p = [] then None else Some (Value p)) \<and>
   map_of (part_members p) ''content_type'' =
     (if ContentType p = [] then None else Some (ContentType p)) \<and>
   map_of (part_members p) ''file_name'' = (if FileName p = [] then None else Some (FileName p)) \<and>
   set (map fst (part_members p)) \<subseteq> {''name'', ''type'', ''value'', ''content_type'', ''file_name''} \<and>
   map (\<lambda>q. map fst (part_members q)) (append_values (c # name) [[]] []) = [[''name'', ''type'']] \<and>
   fst (json_Encode lib (append_values (c # name) [[]] [])) =
     ''[{'' @ json_member (json_string lib) (''name'', c # name) @ '','' @
            json_member (json_string lib) (''type'', ''field/text'') @ ''}]'' @ [CHR 0x0A]"
  by (simp add: part_members_def omitempty_def json_Encode_def Marshal_def json_object_def)

theorem empty_fields_are_omitted_witness:
  "map_of (part_members \<lparr>Name = ''note'', Type = ''field/text'', Value = [],
                          ContentType = [], FileName = []\<rparr>) ''value'' = None \<and>
   map_of (part_members \<lparr>Name = ''note'', Type = ''field/text'', Value = [],
                          ContentType = [], FileName = []\<rparr>) ''name'' = Some ''note'' \<and>
   fst (json_Encode example_lib (append_values ''note'' [[]] [])) =
     ''[{'' @ js ''name'' @ '':'' @ js ''note'' @ '','' @ js ''type'' @ '':'' @ js ''field/text'' @
     ''}]'' @ [CHR 0x0A]"
  using empty_fields_are_omitted
    [of "\<lparr>Name = ''note'', Type = ''field/text'', Value = [], ContentType = [], FileName = []\<rparr>"
        "CHR ''n''" "''ote''" example_lib]
  by (simp add: json_member_def example_lib_def js_def dquote_def)

end
